theory Spec2Isabelle
  imports Complex_Main "HOL-Library.Sublist"
begin

section \<open>Python values reaching the evaluator\<close>

text \<open>
  The evaluator of \<^verbatim>\<open>ai/ml_server.py\<close> only ever compares its two readings with
  numeric literals. A Python number is modelled by its mathematical value: an int and a
  finite float are \<open>Fin r\<close> (Python orders int against float exactly, so the order of
  the reals is the order Python computes; the reals are a superset of the doubles), and
  the three special floats are separate constructors. \<^verbatim>\<open>float('nan')\<close> and
  \<^verbatim>\<open>float('inf')\<close> are what \<^verbatim>\<open>float(request.args.get('tds'))\<close> returns for
  the query strings \<^verbatim>\<open>nan\<close> and \<^verbatim>\<open>inf\<close>.
\<close>

datatype pynum = Fin real | PosInf | NegInf | NaN

text \<open>\<^verbatim>\<open>x <= c\<close> for a finite literal \<open>c\<close>: every comparison with NaN is False.\<close>

fun py_le :: "pynum \<Rightarrow> real \<Rightarrow> bool" where
  "py_le (Fin x) c = (x \<le> c)"
| "py_le PosInf c = False"
| "py_le NegInf c = True"
| "py_le NaN c = False"

text \<open>\<^verbatim>\<open>x > c\<close> for a finite literal \<open>c\<close>.\<close>

fun py_gt :: "pynum \<Rightarrow> real \<Rightarrow> bool" where
  "py_gt (Fin x) c = (x > c)"
| "py_gt PosInf c = True"
| "py_gt NegInf c = False"
| "py_gt NaN c = False"

text \<open>
  An argument is a number, or a value of a type that has no ordering against int and
  float (\<^verbatim>\<open>str\<close>, \<^verbatim>\<open>NoneType\<close>, \<^verbatim>\<open>list\<close>, ...), kept with the name of
  its type. The HTTP routes coerce with \<^verbatim>\<open>float(...)\<close> first, so the second kind
  reaches the evaluator only through a direct call.
\<close>

datatype pyval = Num pynum | NonNum string

datatype py_exception = TypeError string | UnboundLocalError string

text \<open>A name between apostrophes, as CPython's messages print it.\<close>

definition quoted :: "string \<Rightarrow> string" where
  "quoted s = [CHR 0x27] @ s @ [CHR 0x27]"

text \<open>\<^verbatim>\<open>str(e)\<close>, the text the handler puts in the message.\<close>

fun str_exn :: "py_exception \<Rightarrow> string" where
  "str_exn (TypeError msg) = msg"
| "str_exn (UnboundLocalError v) =
     ''cannot access local variable '' @ quoted v @ '' where it is not associated with a value''"

text \<open>The message of the TypeError an unordered comparison raises.\<close>

definition not_supported :: "string \<Rightarrow> string \<Rightarrow> string \<Rightarrow> string" where
  "not_supported opr l r =
     quoted opr @ '' not supported between instances of '' @ quoted l @ '' and '' @ quoted r"

text \<open>\<^verbatim>\<open>sep.join(xs)\<close>\<close>

fun str_join :: "string \<Rightarrow> string list \<Rightarrow> string" where
  "str_join sep [] = []"
| "str_join sep [x] = x"
| "str_join sep (x # y # ys) = x @ sep @ str_join sep (y # ys)"

section \<open>The result dictionary\<close>

record who_compliance =
  tds_compliant :: bool
  turbidity_compliant :: bool
  overall_compliant :: bool

record parameters =
  tds_value :: pyval
  turbidity_value :: pyval
  temperature :: pyval
  ph_level :: pyval

record who_guidelines =
  tds_limit :: real
  turbidity_limit :: real

record ai_info =
  model_version :: string
  training_date :: string
  accuracy :: string

text \<open>The dictionary returned with \<^verbatim>\<open>'status': 'success'\<close> (lines 161-189).\<close>

record evaluation =
  potability_status :: string
  potability_score :: real
  confidence :: real
  risk_level :: string
  recommendation :: string
  action_required :: string
  who_compliance :: who_compliance
  parameters :: parameters
  who_guidelines :: who_guidelines
  ai_info :: ai_info

text \<open>
  The two shapes of the returned dictionary: the success dictionary, or
  \<^verbatim>\<open>{'status': 'error', 'message': m}\<close>, which has no other key.
\<close>

datatype result = Success evaluation | Error string

text \<open>The success dictionary of a result, when it is one.\<close>

fun success_of :: "result \<Rightarrow> evaluation option" where
  "success_of (Success r) = Some r"
| "success_of (Error m) = None"

section \<open>get_potability_recommendation\<close>

text \<open>Lines 103-113: the TDS band, first matching branch of the if/elif chain.\<close>

definition tds_scoring :: "pynum \<Rightarrow> real \<Rightarrow> real" where
  "tds_scoring tds score =
     (if py_gt tds 1200 then score - 50
      else if py_gt tds 900 then score - 45
      else if py_gt tds 600 then score - 40
      else if py_gt tds 500 then score - 35
      else score)"

text \<open>Lines 115-123: the turbidity band.\<close>

definition turbidity_scoring :: "pynum \<Rightarrow> real \<Rightarrow> real" where
  "turbidity_scoring turbidity score =
     (if py_gt turbidity 50 then score - 50
      else if py_gt turbidity 10 then score - 45
      else if py_gt turbidity 5 then score - 40
      else if py_gt turbidity 1.0 then score - 35
      else score)"

text \<open>
  Lines 129-146 mutate three locals: the lists \<open>issues\<close> and \<open>actions\<close>, and
  \<open>risk_level\<close>, which is unbound (\<open>None\<close> here) until a branch assigns it.
\<close>

record advice =
  issues :: "string list"
  actions :: "string list"
  risk :: "string option"

definition no_advice :: advice where
  "no_advice = \<lparr>issues = [], actions = [], risk = None\<rparr>"

definition check_tds :: "pynum \<Rightarrow> advice \<Rightarrow> advice" where
  "check_tds tds a =
     (if py_gt tds 500 then
        \<lparr>issues = issues a @ [''Water is NOT potable. TDS exceeds WHO limit. Consider treatment like filtration or chemical disinfection.''],
         actions = actions a @ [''TDS treatment required''],
         risk = Some ''High''\<rparr>
      else a)"

definition check_turbidity :: "pynum \<Rightarrow> advice \<Rightarrow> advice" where
  "check_turbidity turbidity a =
     (if py_gt turbidity 5.0 then
        \<lparr>issues = issues a @ [''High Turbidity: May contain pathogens, use sediment filters.''],
         actions = actions a @ [''Sediment filtration required''],
         risk = Some ''High''\<rparr>
      else if py_gt turbidity 1.0 then
        \<lparr>issues = issues a @ [''High Turbidity: May contain pathogens, use sediment filters.''],
         actions = actions a @ [''Sediment filtration required''],
         risk = Some ''High''\<rparr>
      else a)"

text \<open>
  Lines 87-189, once both readings are known to be numbers: \<open>tds\<close> and \<open>turbidity\<close>
  are the numbers compared, the four \<open>pyval\<close>s are the arguments echoed under
  \<^verbatim>\<open>'parameters'\<close> (the source's \<open>tds_value\<close>, \<open>turbidity_value\<close>,
  \<open>temperature\<close> and \<open>ph_level\<close>, renamed because the dictionary's keys carry these
  names here; likewise \<open>limit_tds\<close> for \<open>tds_limit\<close> and \<open>compliant_tds\<close> for
  \<open>tds_compliant\<close>). Reading \<open>risk_level\<close> while it is unbound raises
  UnboundLocalError (the text of CPython 3.11 and later).
\<close>

definition evaluate ::
  "pynum \<Rightarrow> pynum \<Rightarrow> pyval \<Rightarrow> pyval \<Rightarrow> pyval \<Rightarrow> pyval \<Rightarrow> py_exception + evaluation" where
  "evaluate tds turbidity tds_arg turbidity_arg temperature_arg ph_arg =
     (let limit_tds = 500;
          limit_turbidity = 1.0;
          compliant_tds = py_le tds limit_tds;
          compliant_turbidity = py_le turbidity limit_turbidity;
          status = (if compliant_tds \<and> compliant_turbidity then ''Potable'' else ''Not Potable'');
          score = turbidity_scoring turbidity (tds_scoring tds 100.0);
          score = max 0.0 (min 100.0 score);
          a = check_turbidity turbidity (check_tds tds no_advice);
          level = (if issues a = [] then Some ''Low'' else risk a);
          advice_text =
            (if issues a = [] then ''Water is POTABLE. No immediate action needed.''
             else str_join '' '' (issues a));
          action_text = (if issues a = [] then ''None'' else str_join '', '' (actions a))
      in case level of
           None \<Rightarrow> Inl (UnboundLocalError ''risk_level'')
         | Some level \<Rightarrow> Inr
            \<lparr>potability_status = status,
             potability_score = score,
             confidence = 0.85,
             risk_level = level,
             recommendation = advice_text,
             action_required = action_text,
             who_compliance =
               \<lparr>tds_compliant = compliant_tds,
                turbidity_compliant = compliant_turbidity,
                overall_compliant = (compliant_tds \<and> compliant_turbidity)\<rparr>,
             parameters =
               \<lparr>tds_value = tds_arg,
                turbidity_value = turbidity_arg,
                temperature = temperature_arg,
                ph_level = ph_arg\<rparr>,
             who_guidelines = \<lparr>tds_limit = limit_tds, turbidity_limit = limit_turbidity\<rparr>,
             ai_info =
               \<lparr>model_version = ''1.0'',
                training_date = ''2024-10-21'',
                accuracy = ''99.5%''\<rparr>\<rparr>)"

text \<open>
  The whole function. \<open>models_loaded\<close> is the module's global flag, read at line 79.
  Inside the \<^verbatim>\<open>try\<close>, line 91 is the first use of \<open>tds_value\<close> and line 92 the
  first use of \<open>turbidity_value\<close>: each raises TypeError when its left operand is not
  a number (the right operands are the int 500 and the float 1.0), and once both have
  returned every later comparison is between numbers. The handler of lines 191-195
  turns any exception into the error dictionary. The defaults \<^verbatim>\<open>temperature=25\<close>
  and \<^verbatim>\<open>ph_level=7.0\<close> are \<open>Num (Fin 25)\<close> and \<open>Num (Fin 7)\<close>.
\<close>

definition prediction_failed :: "py_exception \<Rightarrow> result" where
  "prediction_failed e = Error (''AI prediction failed: '' @ str_exn e)"

definition get_potability_recommendation ::
  "bool \<Rightarrow> pyval \<Rightarrow> pyval \<Rightarrow> pyval \<Rightarrow> pyval \<Rightarrow> result" where
  "get_potability_recommendation models_loaded tds_arg turbidity_arg temperature_arg ph_arg =
     (if \<not> models_loaded then Error ''AI models not loaded. Please train models first.''
      else case tds_arg of
        NonNum ty \<Rightarrow> prediction_failed (TypeError (not_supported ''<='' ty ''int''))
      | Num tds \<Rightarrow>
         (case turbidity_arg of
            NonNum ty \<Rightarrow> prediction_failed (TypeError (not_supported ''<='' ty ''float''))
          | Num turbidity \<Rightarrow>
             (case evaluate tds turbidity tds_arg turbidity_arg temperature_arg ph_arg of
                Inl e \<Rightarrow> prediction_failed e
              | Inr r \<Rightarrow> Success r)))"

section \<open>The score as the specification words it\<close>

text \<open>
  The specification gives the score as \<open>clamp(100 - tds_deduction - turbidity_deduction, 0, 100)\<close>
  and each deduction by a table of bands read top-down, the first matching band winning.
  The definitions below follow those words, not the code: a band is a condition on the
  reading with its deduction, the conditions written with Python's comparisons. A reading
  that no band of its table matches (only NaN) contributes no deduction.
\<close>

definition clamp :: "real \<Rightarrow> real \<Rightarrow> real \<Rightarrow> real" where
  "clamp x lo hi = max lo (min hi x)"

definition spec_tds_bands :: "((pynum \<Rightarrow> bool) \<times> real) list" where
  "spec_tds_bands =
     [(\<lambda>tds. py_gt tds 1200, 50),
      (\<lambda>tds. py_gt tds 900 \<and> py_le tds 1200, 45),
      (\<lambda>tds. py_gt tds 600 \<and> py_le tds 900, 40),
      (\<lambda>tds. py_gt tds 500 \<and> py_le tds 600, 35),
      (\<lambda>tds. py_le tds 500, 0)]"

definition spec_turbidity_bands :: "((pynum \<Rightarrow> bool) \<times> real) list" where
  "spec_turbidity_bands =
     [(\<lambda>turbidity. py_gt turbidity 50, 50),
      (\<lambda>turbidity. py_gt turbidity 10 \<and> py_le turbidity 50, 45),
      (\<lambda>turbidity. py_gt turbidity 5 \<and> py_le turbidity 10, 40),
      (\<lambda>turbidity. py_gt turbidity 1.0 \<and> py_le turbidity 5, 35),
      (\<lambda>turbidity. py_le turbidity 1.0, 0)]"

definition first_match :: "((pynum \<Rightarrow> bool) \<times> real) list \<Rightarrow> pynum \<Rightarrow> real option" where
  "first_match bands x = map_option snd (find (\<lambda>band. fst band x) bands)"

definition spec_deduction :: "((pynum \<Rightarrow> bool) \<times> real) list \<Rightarrow> pynum \<Rightarrow> real" where
  "spec_deduction bands x = (case first_match bands x of None \<Rightarrow> 0 | Some d \<Rightarrow> d)"

section \<open>Comparisons\<close>

lemma py_gt_weaken: "py_gt x c \<Longrightarrow> d \<le> c \<Longrightarrow> py_gt x d"
  by (cases x) auto

lemma py_le_not_gt: "py_le x c \<Longrightarrow> c \<le> d \<Longrightarrow> \<not> py_gt x d"
  by (cases x) auto

lemma py_gt_not_le: "py_gt x c \<Longrightarrow> \<not> py_le x c"
  by (cases x) auto

lemma py_le_or_gt: "x \<noteq> NaN \<Longrightarrow> py_le x c \<or> py_gt x c"
  by (cases x) auto

section \<open>The issue and action lists\<close>

lemma issues_advised:
  "issues (check_turbidity turbidity (check_tds tds no_advice)) =
     (if py_gt tds 500 then [''Water is NOT potable. TDS exceeds WHO limit. Consider treatment like filtration or chemical disinfection.''] else []) @
     (if py_gt turbidity 1.0 then [''High Turbidity: May contain pathogens, use sediment filters.''] else [])"
  using py_gt_weaken [of turbidity 5 1]
  by (simp add: check_turbidity_def check_tds_def no_advice_def)

lemma actions_advised:
  "actions (check_turbidity turbidity (check_tds tds no_advice)) =
     (if py_gt tds 500 then [''TDS treatment required''] else []) @
     (if py_gt turbidity 1.0 then [''Sediment filtration required''] else [])"
  using py_gt_weaken [of turbidity 5 1]
  by (simp add: check_turbidity_def check_tds_def no_advice_def)

lemma risk_advised:
  "risk (check_turbidity turbidity (check_tds tds no_advice)) =
     (if py_gt tds 500 \<or> py_gt turbidity 1.0 then Some ''High'' else None)"
  using py_gt_weaken [of turbidity 5 1]
  by (simp add: check_turbidity_def check_tds_def no_advice_def)

lemma issues_advised_empty:
  "(issues (check_turbidity turbidity (check_tds tds no_advice)) = []) = (\<not> py_gt tds 500 \<and> \<not> py_gt turbidity 1.0)"
  by (simp add: issues_advised)

lemma check_turbidity_collapsed:
  "check_turbidity turbidity a =
     (if py_gt turbidity 1.0 then
        \<lparr>issues = issues a @ [''High Turbidity: May contain pathogens, use sediment filters.''],
         actions = actions a @ [''Sediment filtration required''],
         risk = Some ''High''\<rparr>
      else a)"
  using py_gt_weaken [of turbidity 5 1]
  by (simp add: check_turbidity_def)

section \<open>The returned dictionary in closed form\<close>

lemma evaluate_returns:
  "evaluate tds turbidity a b c d = Inr
     \<lparr>potability_status = (if py_le tds 500 \<and> py_le turbidity 1.0 then ''Potable'' else ''Not Potable''),
      potability_score = max 0 (min 100 (turbidity_scoring turbidity (tds_scoring tds 100))),
      confidence = 0.85,
      risk_level = (if py_gt tds 500 \<or> py_gt turbidity 1.0 then ''High'' else ''Low''),
      recommendation =
        (if py_gt tds 500 \<or> py_gt turbidity 1.0
         then str_join '' '' (issues (check_turbidity turbidity (check_tds tds no_advice)))
         else ''Water is POTABLE. No immediate action needed.''),
      action_required =
        (if py_gt tds 500 \<or> py_gt turbidity 1.0
         then str_join '', '' (actions (check_turbidity turbidity (check_tds tds no_advice)))
         else ''None''),
      who_compliance =
        \<lparr>tds_compliant = py_le tds 500,
         turbidity_compliant = py_le turbidity 1.0,
         overall_compliant = (py_le tds 500 \<and> py_le turbidity 1.0)\<rparr>,
      parameters = \<lparr>tds_value = a, turbidity_value = b, temperature = c, ph_level = d\<rparr>,
      who_guidelines = \<lparr>tds_limit = 500, turbidity_limit = 1.0\<rparr>,
      ai_info = \<lparr>model_version = ''1.0'', training_date = ''2024-10-21'', accuracy = ''99.5%''\<rparr>\<rparr>"
  unfolding evaluate_def Let_def
  by (simp only: issues_advised_empty risk_advised) simp

lemma get_numeric:
  "get_potability_recommendation True (Num tds) (Num turbidity) c d =
     (case evaluate tds turbidity (Num tds) (Num turbidity) c d of
        Inl e \<Rightarrow> prediction_failed e
      | Inr r \<Rightarrow> Success r)"
  by (simp add: get_potability_recommendation_def)

lemma evaluate_never_raises: "\<exists>r. evaluate tds turbidity a b c d = Inr r"
  by (simp add: evaluate_returns)

section \<open>The score bands\<close>

lemma tds_scoring_spec: "tds_scoring tds score = score - spec_deduction spec_tds_bands tds"
  by (cases tds) (auto simp: tds_scoring_def spec_deduction_def first_match_def spec_tds_bands_def)

lemma turbidity_scoring_spec:
  "turbidity_scoring turbidity score = score - spec_deduction spec_turbidity_bands turbidity"
  by (cases turbidity)
     (auto simp: turbidity_scoring_def spec_deduction_def first_match_def spec_turbidity_bands_def)

lemma spec_tds_bands_cover: "tds \<noteq> NaN \<Longrightarrow> \<exists>d. first_match spec_tds_bands tds = Some d"
  by (cases tds) (auto simp: first_match_def spec_tds_bands_def)

lemma spec_turbidity_bands_cover:
  "turbidity \<noteq> NaN \<Longrightarrow> \<exists>d. first_match spec_turbidity_bands turbidity = Some d"
  by (cases turbidity) (auto simp: first_match_def spec_turbidity_bands_def)

lemma tds_scoring_violation: "py_gt tds 500 \<Longrightarrow> tds_scoring tds score \<le> score - 35"
  by (simp add: tds_scoring_def)

lemma tds_scoring_le: "tds_scoring tds score \<le> score"
  by (simp add: tds_scoring_def)

lemma turbidity_scoring_violation:
  "py_gt turbidity 1.0 \<Longrightarrow> turbidity_scoring turbidity score \<le> score - 35"
  by (simp add: turbidity_scoring_def)

lemma turbidity_scoring_le: "turbidity_scoring turbidity score \<le> score"
  by (simp add: turbidity_scoring_def)

lemma tds_scoring_compliant: "py_le tds 500 \<Longrightarrow> tds_scoring tds score = score"
  using py_le_not_gt [of tds 500]
  by (simp add: tds_scoring_def)

lemma turbidity_scoring_compliant:
  "py_le turbidity 1.0 \<Longrightarrow> turbidity_scoring turbidity score = score"
  using py_le_not_gt [of turbidity 1]
  by (simp add: turbidity_scoring_def)

section \<open>Risk level and verdict on readings that are not NaN\<close>

lemma risk_matches_verdict:
  assumes "tds \<noteq> NaN" and "turbidity \<noteq> NaN"
  shows "\<exists>r. get_potability_recommendation True (Num tds) (Num turbidity) c d = Success r
     \<and> (risk_level r = ''High'') = (potability_status r = ''Not Potable'')
     \<and> (risk_level r = ''Low'') = (potability_status r = ''Potable'')
     \<and> (potability_status r = ''Potable'') = (action_required r = ''None'')"
proof -
  have "py_gt tds 500 = (\<not> py_le tds 500)"
    using assms(1) by (cases tds) auto
  moreover have "py_gt turbidity 1.0 = (\<not> py_le turbidity 1.0)"
    using assms(2) by (cases turbidity) auto
  ultimately show ?thesis
    by (simp add: get_numeric evaluate_returns issues_advised actions_advised)
qed

section \<open>The claims\<close>

text \<open>
  Claim C1. For every pair of numeric readings, with the models loaded, the call returns
  a success dictionary whose \<open>tds_compliant\<close> is Python's \<open>tds <= 500\<close>, whose
  \<open>turbidity_compliant\<close> is \<open>turbidity <= 1.0\<close>, whose \<open>overall_compliant\<close> is
  the conjunction of the two, and whose \<open>potability_status\<close> is \<open>'Potable'\<close> exactly
  when \<open>overall_compliant\<close> holds and \<open>'Not Potable'\<close> exactly when it does not.
  On a finite reading \<open>Fin x\<close>, \<open>py_le (Fin x) c\<close> is \<open>x \<le> c\<close>.
\<close>

theorem compliance_flags_and_verdict:
  "\<exists>r. get_potability_recommendation True (Num tds) (Num turbidity) c d = Success r
     \<and> tds_compliant (who_compliance r) = py_le tds 500
     \<and> turbidity_compliant (who_compliance r) = py_le turbidity 1.0
     \<and> overall_compliant (who_compliance r) =
         (tds_compliant (who_compliance r) \<and> turbidity_compliant (who_compliance r))
     \<and> (potability_status r = ''Potable'') = overall_compliant (who_compliance r)
     \<and> (potability_status r = ''Not Potable'') = (\<not> overall_compliant (who_compliance r))"
  by (simp add: get_numeric evaluate_returns)

text \<open>
  Claim C2. For every pair of numeric readings the score of the success dictionary is
  \<open>clamp(100 - tds_deduction - turbidity_deduction, 0, 100)\<close>, the two deductions
  read from the specification's band tables, first match winning. The code's if/elif
  chains are on one side, the tables worded by the specification on the other.
\<close>

theorem score_is_clamped_band_deductions:
  "\<exists>r. get_potability_recommendation True (Num tds) (Num turbidity) c d = Success r
     \<and> potability_score r =
         clamp (100 - spec_deduction spec_tds_bands tds
                    - spec_deduction spec_turbidity_bands turbidity) 0 100"
  by (simp add: get_numeric evaluate_returns clamp_def tds_scoring_spec turbidity_scoring_spec)

text \<open>
  Claim C3. Whenever \<open>tds > 500\<close> or \<open>turbidity > 1.0\<close> (whatever the other
  reading is), the result is \<open>'Not Potable'\<close> with a score of at most 65, hence
  below 70: the violated parameter deducts at least 35 points and the other never adds.
\<close>

theorem violation_not_potable_score_le_65:
  assumes "py_gt tds 500 \<or> py_gt turbidity 1.0"
  shows "\<exists>r. get_potability_recommendation True (Num tds) (Num turbidity) c d = Success r
     \<and> potability_status r = ''Not Potable''
     \<and> potability_score r \<le> 65 \<and> potability_score r < 70"
proof -
  have verdict: "\<not> (py_le tds 500 \<and> py_le turbidity 1.0)"
    using assms py_gt_not_le by auto
  have bound: "turbidity_scoring turbidity (tds_scoring tds 100) \<le> 65"
  proof (cases "py_gt tds 500")
    case True
    then have "tds_scoring tds 100 \<le> 65"
      using tds_scoring_violation [of tds 100] by simp
    then show ?thesis
      using turbidity_scoring_le [of turbidity "tds_scoring tds 100"] by linarith
  next
    case False
    with assms have "py_gt turbidity 1.0" by simp
    then show ?thesis
      using turbidity_scoring_violation [of turbidity "tds_scoring tds 100"]
        tds_scoring_le [of tds 100] by linarith
  qed
  have "max 0 (min 100 (turbidity_scoring turbidity (tds_scoring tds 100))) \<le> 65"
    using bound by simp
  moreover have "max 0 (min 100 (turbidity_scoring turbidity (tds_scoring tds 100))) < 70"
    using bound by simp
  ultimately show ?thesis
    using verdict by (simp only: get_numeric evaluate_returns) auto
qed

text \<open>
  The hypothesis holds at \<open>tds = 501\<close>, \<open>turbidity = 0.5\<close>.
\<close>

theorem violation_not_potable_score_le_65_witness:
  "py_gt (Fin 501) 500 \<and>
   (\<exists>r. get_potability_recommendation True (Num (Fin 501)) (Num (Fin 0.5)) (Num (Fin 25)) (Num (Fin 7)) = Success r
     \<and> potability_status r = ''Not Potable''
     \<and> potability_score r \<le> 65 \<and> potability_score r < 70)"
  using violation_not_potable_score_le_65 [of "Fin 501" "Fin 0.5" "Num (Fin 25)" "Num (Fin 7)"] by simp

text \<open>
  Claim C4. Whenever \<open>tds <= 500\<close> and \<open>turbidity <= 1.0\<close>, both bounds inclusive,
  the result is \<open>'Potable'\<close> with score 100, risk level \<open>'Low'\<close>, action
  \<open>'None'\<close> and the fixed recommendation text.
\<close>

theorem compliant_reading_is_potable:
  assumes "py_le tds 500" and "py_le turbidity 1.0"
  shows "\<exists>r. get_potability_recommendation True (Num tds) (Num turbidity) c d = Success r
     \<and> potability_status r = ''Potable''
     \<and> potability_score r = 100
     \<and> risk_level r = ''Low''
     \<and> action_required r = ''None''
     \<and> recommendation r = ''Water is POTABLE. No immediate action needed.''"
proof -
  have "\<not> py_gt tds 500" and "\<not> py_gt turbidity 1.0"
    using assms py_gt_not_le by auto
  with assms show ?thesis
    by (simp add: get_numeric evaluate_returns tds_scoring_compliant turbidity_scoring_compliant)
qed

text \<open>
  Both hypotheses hold exactly at the limits, \<open>tds = 500\<close> and \<open>turbidity = 1.0\<close>.
\<close>

theorem compliant_reading_is_potable_witness:
  "py_le (Fin 500) 500 \<and> py_le (Fin 1.0) 1.0 \<and>
   (\<exists>r. get_potability_recommendation True (Num (Fin 500)) (Num (Fin 1.0)) (Num (Fin 25)) (Num (Fin 7)) = Success r
     \<and> potability_status r = ''Potable''
     \<and> potability_score r = 100
     \<and> risk_level r = ''Low''
     \<and> action_required r = ''None''
     \<and> recommendation r = ''Water is POTABLE. No immediate action needed.'')"
  using compliant_reading_is_potable [of "Fin 500" "Fin 1.0" "Num (Fin 25)" "Num (Fin 7)"] by simp

text \<open>
  Claim C5 says that \<open>tds = 600\<close>, \<open>turbidity = 0.8\<close> scores 60 after a TDS
  deduction of 40. Line 110 tests \<open>tds_value > 600\<close>, which 600 fails, so the branch of
  line 112 deducts 35 and the score is 65. (The double nearest to 0.8 is also at most
  1.0, so the turbidity contributes nothing either way.)
\<close>

theorem score_at_tds_600_is_not_60:
  "map_option potability_score (success_of
     (get_potability_recommendation True (Num (Fin 600)) (Num (Fin 0.8)) (Num (Fin 25)) (Num (Fin 7))))
   = Some 65
   \<and> map_option potability_score (success_of
     (get_potability_recommendation True (Num (Fin 600)) (Num (Fin 0.8)) (Num (Fin 25)) (Num (Fin 7))))
   \<noteq> Some 60
   \<and> tds_scoring (Fin 600) 100 = 100 - 35
   \<and> tds_scoring (Fin 600) 100 \<noteq> 100 - 40"
  by (simp add: get_numeric evaluate_returns tds_scoring_def turbidity_scoring_def)

text \<open>
  Claim C5 as amended: at \<open>tds = 600\<close>, \<open>turbidity = 0.8\<close> the result is
  \<open>'Not Potable'\<close> with score 65, the TDS deduction being 35 points.
\<close>

theorem score_at_tds_600_is_65:
  "\<exists>r. get_potability_recommendation True (Num (Fin 600)) (Num (Fin 0.8)) c d = Success r
     \<and> potability_status r = ''Not Potable''
     \<and> potability_score r = 65
     \<and> tds_scoring (Fin 600) 100 = 100 - 35"
  by (simp add: get_numeric evaluate_returns tds_scoring_def turbidity_scoring_def)

text \<open>
  Claim C6 says that \<open>'AI prediction failed: <cause>'\<close> is the only error the
  function returns. The guard of lines 79-83 returns another one, before the
  \<^verbatim>\<open>try\<close>: with the models not loaded the message is
  \<open>'AI models not loaded. Please train models first.'\<close>, which does not start with
  \<open>'AI prediction failed: '\<close>.
\<close>

theorem models_not_loaded_is_another_error:
  "get_potability_recommendation False (Num (Fin 350)) (Num (Fin 0.8)) (Num (Fin 25)) (Num (Fin 7))
     = Error ''AI models not loaded. Please train models first.''
   \<and> \<not> prefix ''AI prediction failed: '' ''AI models not loaded. Please train models first.''"
  by (simp add: get_potability_recommendation_def)

text \<open>
  Claim C6 as amended: the function returns exactly two kinds of error dictionary, each
  holding only \<open>status\<close> and \<open>message\<close> (the constructor \<open>Error\<close> carries the
  message and nothing else). The models-not-loaded message is returned exactly when
  \<open>models_loaded\<close> is false. \<open>'AI prediction failed: <cause>'\<close> is returned exactly
  when the models are loaded and the evaluation raises, which happens exactly when a
  reading is not a number; the cause is then the text of the TypeError of line 91 or of
  line 92. In every other case the result is a success dictionary.
\<close>

theorem error_results_two_kinds:
  "(\<exists>r. get_potability_recommendation ml a b c d = Success r)
     = (ml \<and> (\<exists>tds turbidity. a = Num tds \<and> b = Num turbidity))
   \<and> (get_potability_recommendation ml a b c d = Error ''AI models not loaded. Please train models first.'')
     = (\<not> ml)
   \<and> (\<exists>e. get_potability_recommendation ml a b c d = Error (''AI prediction failed: '' @ str_exn e))
     = (ml \<and> \<not> (\<exists>tds turbidity. a = Num tds \<and> b = Num turbidity))
   \<and> (\<forall>ty. ml \<and> a = NonNum ty \<longrightarrow>
        get_potability_recommendation ml a b c d =
          Error (''AI prediction failed: '' @ not_supported ''<='' ty ''int''))
   \<and> (\<forall>tds ty. ml \<and> a = Num tds \<and> b = NonNum ty \<longrightarrow>
        get_potability_recommendation ml a b c d =
          Error (''AI prediction failed: '' @ not_supported ''<='' ty ''float''))"
proof (cases ml)
  case False
  then show ?thesis
    by (simp add: get_potability_recommendation_def)
next
  case True
  show ?thesis
  proof (cases a)
    case (NonNum ty)
    have "\<exists>e. not_supported ''<='' ty ''int'' = str_exn e"
      by (rule exI [of _ "TypeError (not_supported ''<='' ty ''int'')"]) simp
    with True NonNum show ?thesis
      by (simp add: get_potability_recommendation_def prediction_failed_def)
  next
    case (Num tds)
    show ?thesis
    proof (cases b)
      case (NonNum ty)
      have "\<exists>e. not_supported ''<='' ty ''float'' = str_exn e"
        by (rule exI [of _ "TypeError (not_supported ''<='' ty ''float'')"]) simp
      with True Num NonNum show ?thesis
        by (simp add: get_potability_recommendation_def prediction_failed_def)
    next
      case (Num turbidity)
      with True \<open>a = Num tds\<close> show ?thesis
        by (simp add: get_numeric evaluate_returns)
    qed
  qed
qed

text \<open>
  The two implications of the last theorem at a string for \<open>tds_value\<close>, and at
  \<^verbatim>\<open>None\<close> for \<open>turbidity_value\<close> after a numeric \<open>tds_value\<close>.
\<close>

theorem error_results_two_kinds_witness:
  "get_potability_recommendation True (NonNum ''str'') (Num (Fin 0.8)) (Num (Fin 25)) (Num (Fin 7)) =
     Error (''AI prediction failed: '' @ not_supported ''<='' ''str'' ''int'')
   \<and> get_potability_recommendation True (Num (Fin 350)) (NonNum ''NoneType'') (Num (Fin 25)) (Num (Fin 7)) =
     Error (''AI prediction failed: '' @ not_supported ''<='' ''NoneType'' ''float'')"
  using error_results_two_kinds
      [of True "NonNum ''str''" "Num (Fin 0.8)" "Num (Fin 25)" "Num (Fin 7)"]
    error_results_two_kinds
      [of True "Num (Fin 350)" "NonNum ''NoneType''" "Num (Fin 25)" "Num (Fin 7)"]
  by simp

text \<open>
  Claim C7. On a success dictionary the advice is built in append order: the TDS issue
  (when \<open>tds > 500\<close>) comes before the turbidity issue (when \<open>turbidity > 1.0\<close>),
  and likewise the action labels. When an issue was appended, \<open>recommendation\<close> is
  the issue messages joined by a space and \<open>action_required\<close> the action labels joined
  by \<open>', '\<close>; when none was, the two fixed texts of lines 151-152 are returned. The
  two turbidity branches (above 5.0, and above 1.0 only) append the same text: the block
  of lines 139-146 is one branch on \<open>turbidity > 1.0\<close>.
\<close>

theorem advice_text_in_append_order:
  "\<exists>r. get_potability_recommendation True (Num tds) (Num turbidity) c d = Success r
     \<and> (let appended_issues =
              (if py_gt tds 500 then [''Water is NOT potable. TDS exceeds WHO limit. Consider treatment like filtration or chemical disinfection.''] else []) @
              (if py_gt turbidity 1.0 then [''High Turbidity: May contain pathogens, use sediment filters.''] else []);
             appended_actions =
              (if py_gt tds 500 then [''TDS treatment required''] else []) @
              (if py_gt turbidity 1.0 then [''Sediment filtration required''] else [])
         in issues (check_turbidity turbidity (check_tds tds no_advice)) = appended_issues
          \<and> actions (check_turbidity turbidity (check_tds tds no_advice)) = appended_actions
          \<and> recommendation r =
               (if appended_issues = [] then ''Water is POTABLE. No immediate action needed.''
                else str_join '' '' appended_issues)
          \<and> action_required r =
               (if appended_issues = [] then ''None'' else str_join '', '' appended_actions))
     \<and> check_turbidity turbidity a =
         (if py_gt turbidity 1.0 then
            \<lparr>issues = issues a @ [''High Turbidity: May contain pathogens, use sediment filters.''],
             actions = actions a @ [''Sediment filtration required''],
             risk = Some ''High''\<rparr>
          else a)"
  unfolding Let_def
  by (simp only: get_numeric evaluate_returns issues_advised actions_advised
        check_turbidity_collapsed [symmetric]) simp

text \<open>
  Claim C8. Temperature and pH are only echoed. Two calls that differ only in these two
  arguments return the same error, or success dictionaries that differ only in
  \<open>parameters.temperature\<close> and \<open>parameters.ph_level\<close>: every other field,
  \<open>potability_status\<close>, \<open>potability_score\<close>, \<open>risk_level\<close>,
  \<open>recommendation\<close>, \<open>action_required\<close> and \<open>who_compliance\<close> among them, is
  the same.
\<close>

theorem temperature_and_ph_only_echoed:
  "get_potability_recommendation ml a b c' d' =
     (case get_potability_recommendation ml a b c d of
        Error m \<Rightarrow> Error m
      | Success r \<Rightarrow>
          Success (r\<lparr>parameters := (parameters r)\<lparr>temperature := c', ph_level := d'\<rparr>\<rparr>))"
proof (cases ml)
  case False
  then show ?thesis
    by (simp add: get_potability_recommendation_def)
next
  case True
  show ?thesis
  proof (cases a)
    case (NonNum ty)
    with True show ?thesis
      by (simp add: get_potability_recommendation_def prediction_failed_def)
  next
    case (Num tds)
    show ?thesis
    proof (cases b)
      case (NonNum ty)
      with True Num show ?thesis
        by (simp add: get_potability_recommendation_def prediction_failed_def)
    next
      case (Num turbidity)
      with True \<open>a = Num tds\<close> show ?thesis
        by (simp add: get_numeric evaluate_returns)
    qed
  qed
qed

text \<open>
  Claim C9. With \<open>models_loaded\<close> false the function returns the models-not-loaded
  error for every input, numeric or not, before anything is computed; so the result
  depends on the flag: the same four arguments give different results under the two
  values of the flag.
\<close>

theorem models_not_loaded_guard:
  "get_potability_recommendation False a b c d =
     Error ''AI models not loaded. Please train models first.''
   \<and> get_potability_recommendation True (Num (Fin 350)) (Num (Fin 0.8)) (Num (Fin 25)) (Num (Fin 7))
     \<noteq> get_potability_recommendation False (Num (Fin 350)) (Num (Fin 0.8)) (Num (Fin 25)) (Num (Fin 7))"
  by (simp add: get_potability_recommendation_def evaluate_returns)

text \<open>
  Claim C10 says that in every success dictionary the risk level is \<open>'High'\<close>
  exactly when the verdict is \<open>'Not Potable'\<close>. The lemma \<open>risk_matches_verdict\<close>
  proves it for readings that are not NaN. At a NaN reading both \<open>tds_value <= 500\<close>
  and \<open>tds_value > 500\<close> are False: the verdict is \<open>'Not Potable'\<close> while no issue
  is appended and no points are deducted, so the same dictionary says \<open>'Low'\<close>,
  \<open>'None'\<close>, a score of 100 and that the water is potable. The theorem evaluates the
  function at \<open>tds_value = float('nan')\<close>, \<open>turbidity_value = 0.8\<close>.
\<close>

theorem nan_reading_low_risk_not_potable:
  "map_option potability_status (success_of
     (get_potability_recommendation True (Num NaN) (Num (Fin 0.8)) (Num (Fin 25)) (Num (Fin 7))))
     = Some ''Not Potable''
   \<and> map_option risk_level (success_of
     (get_potability_recommendation True (Num NaN) (Num (Fin 0.8)) (Num (Fin 25)) (Num (Fin 7))))
     = Some ''Low''
   \<and> map_option action_required (success_of
     (get_potability_recommendation True (Num NaN) (Num (Fin 0.8)) (Num (Fin 25)) (Num (Fin 7))))
     = Some ''None''
   \<and> map_option recommendation (success_of
     (get_potability_recommendation True (Num NaN) (Num (Fin 0.8)) (Num (Fin 25)) (Num (Fin 7))))
     = Some ''Water is POTABLE. No immediate action needed.''
   \<and> map_option potability_score (success_of
     (get_potability_recommendation True (Num NaN) (Num (Fin 0.8)) (Num (Fin 25)) (Num (Fin 7))))
     = Some 100"
  by (simp add: get_numeric evaluate_returns tds_scoring_def turbidity_scoring_def)
end
